theory Spec2Isabelle
  imports Main
begin

section \<open>Data delivered by the host\<close>

text \<open>
  A field of a calendar reading, as the time feed delivers it: \<open>undefined\<close>,
  \<open>null\<close> or a number. The calendar counts in whole numbers, so a number is
  an \<open>int\<close>; \<open>!==\<close> on two such values is HOL's \<open>\<noteq>\<close>.
\<close>

datatype jsval = Undefined | Null | Num int

record Display =
  display_date :: string
  display_time :: string

text \<open>
  \<open>SimpleCalendar.DateData\<close>, with the fields \<open>WeatherApplication\<close> reads.
  Every other field of the reading is passed through untouched.
\<close>

record DateData =
  second :: jsval
  minute :: jsval
  day :: jsval
  month :: jsval
  year :: jsval
  dayOfTheWeek :: jsval
  weekdays :: "string list"
  display :: "Display option"

text \<open>
  \<open>WeatherData\<close>: the reading the weather belongs to (absent until one is attached)
  and the generated weather itself, which the application never looks into.
\<close>

record 'c WeatherData =
  date :: "DateData option"
  content :: 'c

record WindowPosition =
  left_px :: int
  top_px :: int

section \<open>Collaborators\<close>

text \<open>
  What the application imports and calls but does not define: the role query
  \<open>isClientGM\<close>, the generator, the two display methods of \<open>WeatherData\<close>, the
  numeric values of the enum members used as defaults, the selection lists, the
  conversion \<open>Number\<close> applied to the value of a select element, and the template data
  of the parent class. The members of the enums \<open>Climate\<close>, \<open>Humidity\<close> and
  \<open>Season\<close> are numbers, here \<open>int\<close>.
\<close>

record 'c host =
  isClientGM :: bool
  generate :: "int \<Rightarrow> int \<Rightarrow> int \<Rightarrow> 'c WeatherData option \<Rightarrow> 'c WeatherData"
  getTemperature :: "'c WeatherData \<Rightarrow> bool \<Rightarrow> string"
  getDescription :: "'c WeatherData \<Rightarrow> string"
  Climate_Cold :: int
  Humidity_Modest :: int
  Season_Spring :: int
  Number :: "string \<Rightarrow> int"
  biomeSelections :: "(string \<times> string) list"
  seasonSelections :: "(string \<times> string) list"
  humiditySelections :: "(string \<times> string) list"
  climateSelections :: "(string \<times> string) list"
  superData :: "(string \<times> string) list"

section \<open>State\<close>

text \<open>
  The settings the application reads or writes through \<open>moduleSettings\<close>. The store
  holds values: a record read from it and then changed in memory does not change what
  the store holds.
\<close>

record 'c moduleSettings =
  lastWeatherData :: "'c WeatherData option"
  useCelsius :: bool
  dialogDisplay :: bool

text \<open>
  The three select elements of the page; \<open>None\<close> when \<open>getElementById\<close> finds no
  such element, otherwise the element's \<open>value\<close>.
\<close>

record document =
  season_selection :: "string option"
  climate_selection :: "string option"
  humidity_selection :: "string option"

text \<open>
  The calls to collaborators whose number and order matter: the generator, the write
  of the weather record and \<open>render\<close>, in the order made. Calls of \<open>log\<close> and
  \<open>console.log\<close> only print and are left out.
\<close>

datatype 'c event =
    Generate int int int "'c WeatherData option"
  | SetLastWeatherData "'c WeatherData"
  | Render

datatype error = TypeError | StoreWriteFailure

text \<open>
  The fields of the application object, with the settings store, the page and the
  log of calls it acts on.
\<close>

record 'c app =
  currentWeather :: "'c WeatherData option"
  weatherPanelOpen :: bool
  windowPosition :: WindowPosition
  settings :: "'c moduleSettings"
  page :: document
  events :: "'c event list"

definition render :: "'c app \<Rightarrow> 'c app" where
  "render s = s\<lparr>events := events s @ [Render]\<rparr>"

text \<open>
  Modelled from the spec: \<open>moduleSettings.set(SettingKeys.lastWeatherData, _)\<close>, the
  write operation of the store adapter, whose code is not part of the sources at hand.
  The write either is accepted and the store then holds the record as one value, or
  fails and leaves the store as it was. Which of the two happens is the argument
  \<open>accepted\<close>. The call is logged either way.
\<close>

definition set_lastWeatherData :: "bool \<Rightarrow> 'c WeatherData \<Rightarrow> 'c app \<Rightarrow> 'c app" where
  "set_lastWeatherData accepted w s =
     s\<lparr>settings := (if accepted then (settings s)\<lparr>lastWeatherData := Some w\<rparr> else settings s),
       events := events s @ [SetLastWeatherData w]\<rparr>"

definition call_generate ::
  "'c host \<Rightarrow> int \<Rightarrow> int \<Rightarrow> int \<Rightarrow> 'c WeatherData option \<Rightarrow> 'c app \<Rightarrow> 'c WeatherData \<times> 'c app" where
  "call_generate h c hu se seed s =
     (generate h c hu se seed, s\<lparr>events := events s @ [Generate c hu se seed]\<rparr>)"

section \<open>Change detection\<close>

definition isDefined :: "jsval \<Rightarrow> bool" where
  "isDefined v = (v \<noteq> Undefined \<and> v \<noteq> Null)"

definition isDateTimeValid :: "DateData \<Rightarrow> bool" where
  "isDateTimeValid d =
     (if isDefined (second d) \<and> isDefined (minute d) \<and> isDefined (day d) \<and>
         isDefined (month d) \<and> isDefined (year d)
      then True else False)"

text \<open>\<open>this.currentWeather?.date\<close>\<close>

definition previous :: "'c app \<Rightarrow> DateData option" where
  "previous s = (case currentWeather s of None \<Rightarrow> None | Some w \<Rightarrow> date w)"

definition hasDateChanged :: "'c app \<Rightarrow> DateData option \<Rightarrow> bool" where
  "hasDateChanged s currentDate =
     (if (previous s = None \<and> currentDate \<noteq> None) \<or> (previous s \<noteq> None \<and> currentDate = None)
      then True
      else if previous s = None \<and> currentDate = None then False
      else
        (case (previous s, currentDate) of
           (Some p, Some c) \<Rightarrow>
             if isDateTimeValid c then
               (if day c \<noteq> day p \<or> month c \<noteq> month p \<or> year c \<noteq> year p
                then True else False)
             else False
         | _ \<Rightarrow> False))"

section \<open>Time updates and bootstrap\<close>

text \<open>
  \<open>updateDateTime\<close> is an async method: the result pairs the state it leaves with
  the error its promise rejects with, if any. Assigning to \<open>this.currentWeather.date\<close>
  while no record is loaded is a \<open>TypeError\<close>. The write is awaited, so a failed
  write rejects the call before \<open>render\<close> is reached.
\<close>

definition updateDateTime ::
  "'c host \<Rightarrow> bool \<Rightarrow> DateData option \<Rightarrow> 'c app \<Rightarrow> error option \<times> 'c app" where
  "updateDateTime h accepted currentDate s =
     (case currentDate of
        None \<Rightarrow> (None, s)
      | Some d \<Rightarrow>
          if hasDateChanged s currentDate then
            if isClientGM h then
              (case currentWeather s of
                 None \<Rightarrow> (Some TypeError, s)
               | Some w \<Rightarrow>
                   let s1 = s\<lparr>currentWeather := Some (w\<lparr>date := Some d\<rparr>)\<rparr>;
                       s2 = set_lastWeatherData accepted (w\<lparr>date := Some d\<rparr>) s1
                   in if accepted then (None, render s2) else (Some StoreWriteFailure, s2))
            else (None, render s)
          else
            (case currentWeather s of
               None \<Rightarrow> (Some TypeError, s)
             | Some w \<Rightarrow> (None, render (s\<lparr>currentWeather := Some (w\<lparr>date := Some d\<rparr>)\<rparr>))))"

text \<open>
  \<open>setWeather\<close> does not await its write: a failed write leaves the store as it was
  and the method goes on to \<open>render\<close>.
\<close>

definition setWeather :: "'c host \<Rightarrow> bool \<Rightarrow> 'c app \<Rightarrow> 'c app" where
  "setWeather h accepted s =
     render
       (case lastWeatherData (settings s) of
          Some weatherData \<Rightarrow> s\<lparr>currentWeather := Some weatherData\<rparr>
        | None \<Rightarrow>
            if isClientGM h then
              let (w, s1) = call_generate h (Climate_Cold h) (Humidity_Modest h) (Season_Spring h) None s;
                  s2 = s1\<lparr>currentWeather := Some w\<rparr>
              in set_lastWeatherData accepted w s2
            else s)"

section \<open>Manual regeneration\<close>

definition getSeason :: "'c host \<Rightarrow> 'c app \<Rightarrow> int option" where
  "getSeason h s =
     (case season_selection (page s) of Some v \<Rightarrow> Some (Number h v) | None \<Rightarrow> None)"

definition getClimate :: "'c host \<Rightarrow> 'c app \<Rightarrow> int option" where
  "getClimate h s =
     (case climate_selection (page s) of Some v \<Rightarrow> Some (Number h v) | None \<Rightarrow> None)"

definition getHumidity :: "'c host \<Rightarrow> 'c app \<Rightarrow> int option" where
  "getHumidity h s =
     (case humidity_selection (page s) of Some v \<Rightarrow> Some (Number h v) | None \<Rightarrow> None)"

text \<open>
  The click handler. Its write is not awaited either, so the handler itself never
  fails; \<open>event.preventDefault()\<close> touches nothing modelled here.
\<close>

definition onWeatherRegenerateClick :: "'c host \<Rightarrow> bool \<Rightarrow> 'c app \<Rightarrow> 'c app" where
  "onWeatherRegenerateClick h accepted s =
     (case (getHumidity h s, getClimate h s, getSeason h s) of
        (Some humidity, Some climate, Some season) \<Rightarrow>
          let (w, s1) = call_generate h climate humidity season (currentWeather s) s;
              s2 = s1\<lparr>currentWeather := Some w\<rparr>;
              s3 = set_lastWeatherData accepted w s2
          in render s3
      | _ \<Rightarrow> s)"

section \<open>Template data\<close>

text \<open>Decimal digits of a number, as string concatenation prints it.\<close>

fun digits :: "nat \<Rightarrow> string" where
  "digits n =
     (if n < 10 then [char_of (48 + n)] else digits (n div 10) @ [char_of (48 + n mod 10)])"

definition string_of_int :: "int \<Rightarrow> string" where
  "string_of_int i = (if i < 0 then CHR ''-'' # digits (nat (- i)) else digits (nat i))"

fun toString :: "jsval \<Rightarrow> string" where
  "toString Undefined = ''undefined''"
| "toString Null = ''null''"
| "toString (Num n) = string_of_int n"

text \<open>
  \<open>weekdays[dayOfTheWeek]\<close>: reading an array at an index it does not have gives
  \<open>undefined\<close>, here \<open>None\<close>.
\<close>

definition element_at :: "string list \<Rightarrow> jsval \<Rightarrow> string option" where
  "element_at xs v =
     (case v of
        Num i \<Rightarrow> if 0 \<le> i \<and> i < int (length xs) then Some (xs ! nat i) else None
      | _ \<Rightarrow> None)"

text \<open>
  The object \<open>getData\<close> returns. The fields of the parent class come first in the
  source and are overridden by the ones listed after them; they are kept apart here
  as \<open>inherited\<close>.
\<close>

record templateData =
  inherited :: "(string \<times> string) list"
  isGM :: bool
  displayDate :: string
  formattedDate :: string
  formattedTime :: string
  weekday :: "string option"
  currentTemperature :: string
  currentDescription :: string
  data_weatherPanelOpen :: bool
  data_biomeSelections :: "(string \<times> string) list"
  data_seasonSelections :: "(string \<times> string) list"
  data_humiditySelections :: "(string \<times> string) list"
  data_climateSelections :: "(string \<times> string) list"
  hideWeather :: bool
  data_windowPosition :: WindowPosition

definition getData :: "'c host \<Rightarrow> 'c app \<Rightarrow> templateData" where
  "getData h s =
     \<lparr>inherited = superData h,
      isGM = isClientGM h,
      displayDate =
        (case currentWeather s of
           None \<Rightarrow> ''''
         | Some w \<Rightarrow>
             (case date w of
                None \<Rightarrow> ''''
              | Some d \<Rightarrow> (case display d of None \<Rightarrow> '''' | Some dp \<Rightarrow> display_date dp))),
      formattedDate =
        (case currentWeather s of
           None \<Rightarrow> ''''
         | Some w \<Rightarrow>
             (case date w of
                None \<Rightarrow> ''''
              | Some d \<Rightarrow>
                  toString (day d) @ ''/'' @ toString (month d) @ ''/'' @ toString (year d))),
      formattedTime =
        (case currentWeather s of
           None \<Rightarrow> ''''
         | Some w \<Rightarrow>
             (case date w of
                None \<Rightarrow> ''''
              | Some d \<Rightarrow> (case display d of None \<Rightarrow> '''' | Some dp \<Rightarrow> display_time dp))),
      weekday =
        (case currentWeather s of
           None \<Rightarrow> Some ''''
         | Some w \<Rightarrow>
             (case date w of
                None \<Rightarrow> Some ''''
              | Some d \<Rightarrow> element_at (weekdays d) (dayOfTheWeek d))),
      currentTemperature =
        (case currentWeather s of
           None \<Rightarrow> ''''
         | Some w \<Rightarrow> getTemperature h w (useCelsius (settings s))),
      currentDescription =
        (case currentWeather s of None \<Rightarrow> '''' | Some w \<Rightarrow> getDescription h w),
      data_weatherPanelOpen = weatherPanelOpen s,
      data_biomeSelections = biomeSelections h,
      data_seasonSelections = seasonSelections h,
      data_humiditySelections = humiditySelections h,
      data_climateSelections = climateSelections h,
      hideWeather = (if isClientGM h \<or> dialogDisplay (settings s) then False else True),
      data_windowPosition = windowPosition s\<rparr>"

section \<open>Reading the log of calls\<close>

fun is_write :: "'c event \<Rightarrow> bool" where
  "is_write (SetLastWeatherData w) = True"
| "is_write _ = False"

fun is_generate :: "'c event \<Rightarrow> bool" where
  "is_generate (Generate c hu se seed) = True"
| "is_generate _ = False"

section \<open>Sample inputs\<close>

text \<open>A complete reading for the given year, month, day, minute and second.\<close>

definition reading :: "int \<Rightarrow> int \<Rightarrow> int \<Rightarrow> int \<Rightarrow> int \<Rightarrow> DateData" where
  "reading y m d mi se =
     \<lparr>second = Num se, minute = Num mi, day = Num d, month = Num m, year = Num y,
      dayOfTheWeek = Num 0, weekdays = [''Moonday''], display = None\<rparr>"

text \<open>A reading the feed has not filled in yet.\<close>

definition blank_reading :: DateData where
  "blank_reading =
     \<lparr>second = Undefined, minute = Undefined, day = Undefined, month = Undefined,
      year = Undefined, dayOfTheWeek = Undefined, weekdays = [], display = None\<rparr>"

text \<open>
  A host whose generator always answers with the content \<open>''fresh''\<close> and no date,
  and whose \<open>Number\<close> reads a string as its length; the flag says whether the client
  is the GM.
\<close>

definition sample_host :: "bool \<Rightarrow> string host" where
  "sample_host gm =
     \<lparr>isClientGM = gm,
      generate = (\<lambda>c hu se seed. \<lparr>date = None, content = ''fresh''\<rparr>),
      getTemperature = (\<lambda>w celsius. ''5''),
      getDescription = (\<lambda>w. content w),
      Climate_Cold = 0, Humidity_Modest = 1, Season_Spring = 0,
      Number = (\<lambda>v. int (length v)),
      biomeSelections = [], seasonSelections = [], humiditySelections = [],
      climateSelections = [], superData = []\<rparr>"

text \<open>
  An application holding the given record, over a store holding the given record and
  a page with the given select elements; nothing has been called yet.
\<close>

definition sample_app ::
  "string WeatherData option \<Rightarrow> string WeatherData option \<Rightarrow> document \<Rightarrow> string app" where
  "sample_app held stored pg =
     \<lparr>currentWeather = held, weatherPanelOpen = False,
      windowPosition = \<lparr>left_px = 100, top_px = 100\<rparr>,
      settings = \<lparr>lastWeatherData = stored, useCelsius = False, dialogDisplay = True\<rparr>,
      page = pg, events = []\<rparr>"

definition full_page :: document where
  "full_page =
     \<lparr>season_selection = Some ''1'', climate_selection = Some ''22'',
      humidity_selection = Some ''333''\<rparr>"

definition no_page :: document where
  "no_page = \<lparr>season_selection = None, climate_selection = None, humidity_selection = None\<rparr>"

text \<open>The record of day 1, month 1, year 1000, with content \<open>''stale''\<close>.\<close>

definition old_record :: "string WeatherData" where
  "old_record = \<lparr>date = Some (reading 1000 1 1 0 0), content = ''stale''\<rparr>"

section \<open>Unfolding rules\<close>

lemmas sample_defs = reading_def blank_reading_def sample_host_def sample_app_def
  full_page_def no_page_def old_record_def

lemmas detect_defs = hasDateChanged_def previous_def isDateTimeValid_def isDefined_def

lemmas effect_defs = set_lastWeatherData_def call_generate_def render_def

section \<open>Change detection: basic facts\<close>

lemma hasDateChanged_present:
  "previous s = Some p \<Longrightarrow>
   hasDateChanged s (Some c) =
     (isDateTimeValid c \<and> (day c \<noteq> day p \<or> month c \<noteq> month p \<or> year c \<noteq> year p))"
  by (simp add: hasDateChanged_def)

lemma hasDateChanged_first:
  "previous s = None \<Longrightarrow> hasDateChanged s (Some c)"
  by (simp add: hasDateChanged_def)

lemma isDateTimeValid_reading:
  "isDateTimeValid (reading y m d mi se)"
  by (simp add: isDateTimeValid_def isDefined_def reading_def)

section \<open>Time updates: basic facts\<close>

lemma updateDateTime_absent:
  "updateDateTime h accepted None s = (None, s)"
  by (simp add: updateDateTime_def)

lemma updateDateTime_never_generates:
  "filter is_generate (events (snd (updateDateTime h accepted currentDate s)))
     = filter is_generate (events s)"
  by (simp add: updateDateTime_def effect_defs Let_def split: option.splits)

lemma updateDateTime_keeps_content:
  "map_option content (currentWeather (snd (updateDateTime h accepted currentDate s)))
     = map_option content (currentWeather s)"
  by (simp add: updateDateTime_def effect_defs Let_def split: option.splits)

lemma updateDateTime_adopts:
  assumes "currentWeather s = Some w" and "isClientGM h"
  shows "currentWeather (snd (updateDateTime h accepted (Some d) s)) = Some (w\<lparr>date := Some d\<rparr>)"
  using assms by (simp add: updateDateTime_def effect_defs Let_def)

lemma updateDateTime_writes:
  "length (filter is_write (events (snd (updateDateTime h accepted currentDate s))))
     \<le> Suc (length (filter is_write (events s)))"
  by (simp add: updateDateTime_def effect_defs Let_def split: option.splits)

lemma updateDateTime_no_record:
  assumes "currentWeather s = None" and "isClientGM h"
  shows "updateDateTime h accepted (Some d) s = (Some TypeError, s)"
  using assms by (simp add: updateDateTime_def hasDateChanged_def previous_def)

lemma updateDateTime_unchanged_date:
  assumes "currentWeather s = Some w" and "date w = Some d"
  shows "updateDateTime h accepted (Some d) s = (None, s\<lparr>events := events s @ [Render]\<rparr>)"
proof -
  have "previous s = Some d"
    using assms by (simp add: previous_def)
  then have "\<not> hasDateChanged s (Some d)"
    by (simp add: hasDateChanged_present)
  moreover have "s\<lparr>currentWeather := Some (w\<lparr>date := Some d\<rparr>)\<rparr> = s"
    using assms by simp
  ultimately show ?thesis
    using assms(1) by (simp add: updateDateTime_def render_def)
qed

section \<open>The time-update entry point\<close>

text \<open>
  C1. On a material change seen by the GM, \<open>updateDateTime\<close> is to call the generator
  with the previous record as seed and commit the generated content under the incoming
  reading. It does not: with the record of day 1 held and the reading of day 2 coming
  in, the record keeps its content \<open>''stale''\<close>, gets the new date and is written to
  the store; the log holds a write and a render and no call of the generator, whose
  answer would have had the content \<open>''fresh''\<close>.
\<close>

theorem updateDateTime_commit_without_generation:
  "updateDateTime (sample_host True) True (Some (reading 1000 1 2 0 0))
     (sample_app (Some old_record) (Some old_record) full_page)
   = (None,
      (sample_app (Some old_record) (Some old_record) full_page)
        \<lparr>currentWeather := Some \<lparr>date = Some (reading 1000 1 2 0 0), content = ''stale''\<rparr>,
         settings := \<lparr>lastWeatherData = Some \<lparr>date = Some (reading 1000 1 2 0 0), content = ''stale''\<rparr>,
                      useCelsius = False, dialogDisplay = True\<rparr>,
         events := [SetLastWeatherData \<lparr>date = Some (reading 1000 1 2 0 0), content = ''stale''\<rparr>, Render]\<rparr>)
   \<and> content (generate (sample_host True) 0 1 0 (Some old_record)) = ''fresh''"
  by (simp add: updateDateTime_def detect_defs effect_defs sample_defs)

text \<open>
  C2. On a material change seen by a client that is not the GM, \<open>updateDateTime\<close>
  neither writes to the store nor calls the generator: it leaves the record and the
  store as they are and only asks for a render.
\<close>

theorem updateDateTime_player_material:
  assumes "hasDateChanged s (Some d)" and "\<not> isClientGM h"
  shows "updateDateTime h accepted (Some d) s = (None, s\<lparr>events := events s @ [Render]\<rparr>)"
  using assms by (simp add: updateDateTime_def render_def)

theorem updateDateTime_player_material_witness:
  "hasDateChanged (sample_app (Some old_record) (Some old_record) full_page) (Some (reading 1000 1 2 0 0))
   \<and> \<not> isClientGM (sample_host False)
   \<and> updateDateTime (sample_host False) True (Some (reading 1000 1 2 0 0))
        (sample_app (Some old_record) (Some old_record) full_page)
      = (None, (sample_app (Some old_record) (Some old_record) full_page)\<lparr>events := [Render]\<rparr>)"
proof -
  have m: "hasDateChanged (sample_app (Some old_record) (Some old_record) full_page) (Some (reading 1000 1 2 0 0))"
    by (simp add: detect_defs sample_defs)
  have p: "\<not> isClientGM (sample_host False)"
    by (simp add: sample_host_def)
  show ?thesis
    using m p updateDateTime_player_material [OF m p, of True]
    by (simp add: sample_app_def)
qed

section \<open>The change detector\<close>

text \<open>
  C3. When a reading is held and both it and the incoming reading are valid,
  \<open>hasDateChanged\<close> answers true exactly when day, month or year differ; readings
  that agree on the three, whatever their minutes and seconds, give false.
\<close>

theorem hasDateChanged_valid_pair:
  assumes "previous s = Some p" and "isDateTimeValid p" and "isDateTimeValid c"
  shows "(hasDateChanged s (Some c) \<longleftrightarrow> day c \<noteq> day p \<or> month c \<noteq> month p \<or> year c \<noteq> year p)
         \<and> (day c = day p \<and> month c = month p \<and> year c = year p \<longrightarrow> \<not> hasDateChanged s (Some c))"
  using assms by (simp add: hasDateChanged_present)

theorem hasDateChanged_valid_pair_witness:
  "previous (sample_app (Some old_record) None no_page) = Some (reading 1000 1 1 0 0)
   \<and> isDateTimeValid (reading 1000 1 1 0 0)
   \<and> isDateTimeValid (reading 1000 1 2 0 0)
   \<and> isDateTimeValid (reading 1000 1 1 59 59)
   \<and> hasDateChanged (sample_app (Some old_record) None no_page) (Some (reading 1000 1 2 0 0))
   \<and> \<not> hasDateChanged (sample_app (Some old_record) None no_page) (Some (reading 1000 1 1 59 59))"
proof -
  have p: "previous (sample_app (Some old_record) None no_page) = Some (reading 1000 1 1 0 0)"
    by (simp add: previous_def sample_defs)
  note v = isDateTimeValid_reading
  from p v
    hasDateChanged_valid_pair [OF p v v, of 1000 1 2 0 0]
    hasDateChanged_valid_pair [OF p v v, of 1000 1 1 59 59]
  show ?thesis by (simp add: reading_def)
qed

text \<open>
  C4, amended. When a reading is held and the incoming reading is invalid,
  \<open>hasDateChanged\<close> answers false.
\<close>

theorem hasDateChanged_invalid:
  assumes "previous s = Some p" and "\<not> isDateTimeValid c"
  shows "\<not> hasDateChanged s (Some c)"
  using assms by (simp add: hasDateChanged_present)

theorem hasDateChanged_invalid_witness:
  "previous (sample_app (Some old_record) None no_page) = Some (reading 1000 1 1 0 0)
   \<and> \<not> isDateTimeValid blank_reading
   \<and> \<not> hasDateChanged (sample_app (Some old_record) None no_page) (Some blank_reading)"
proof -
  have p: "previous (sample_app (Some old_record) None no_page) = Some (reading 1000 1 1 0 0)"
    by (simp add: previous_def sample_defs)
  have v: "\<not> isDateTimeValid blank_reading"
    by (simp add: isDateTimeValid_def isDefined_def blank_reading_def)
  from p v hasDateChanged_invalid [OF p v] show ?thesis by simp
qed

text \<open>
  Without the first hypothesis the statement fails: while no reading is held, the test
  for a first reading comes before the validity test, and a reading with every field
  undefined counts as a change.
\<close>

theorem hasDateChanged_invalid_first_reading:
  "\<not> isDateTimeValid blank_reading
   \<and> hasDateChanged (sample_app None None no_page) (Some blank_reading)"
  by (simp add: detect_defs sample_defs)

section \<open>The time of the record held\<close>

text \<open>
  C5, amended. When a record is held and either the client is the GM or the change is
  not material, \<open>updateDateTime\<close> with a present reading leaves the record held with
  that reading as its date, whether or not the write is accepted.
\<close>

theorem updateDateTime_refreshes_date:
  assumes "currentWeather s = Some w" and "isClientGM h \<or> \<not> hasDateChanged s (Some d)"
  shows "currentWeather (snd (updateDateTime h accepted (Some d) s)) = Some (w\<lparr>date := Some d\<rparr>)"
  using assms by (auto simp add: updateDateTime_def effect_defs Let_def)

theorem updateDateTime_refreshes_date_witness:
  "currentWeather (snd (updateDateTime (sample_host True) True (Some (reading 1000 1 2 0 0))
      (sample_app (Some old_record) (Some old_record) full_page)))
     = Some \<lparr>date = Some (reading 1000 1 2 0 0), content = ''stale''\<rparr>
   \<and> \<not> hasDateChanged (sample_app (Some old_record) (Some old_record) full_page)
         (Some (reading 1000 1 1 30 15))
   \<and> currentWeather (snd (updateDateTime (sample_host False) True (Some (reading 1000 1 1 30 15))
      (sample_app (Some old_record) (Some old_record) full_page)))
     = Some \<lparr>date = Some (reading 1000 1 1 30 15), content = ''stale''\<rparr>"
proof -
  let ?s = "sample_app (Some old_record) (Some old_record) full_page"
  have w: "currentWeather ?s = Some old_record"
    by (simp add: sample_app_def)
  have gm: "isClientGM (sample_host True) \<or> \<not> hasDateChanged ?s (Some (reading 1000 1 2 0 0))"
    by (simp add: sample_host_def)
  have same: "\<not> hasDateChanged ?s (Some (reading 1000 1 1 30 15))"
    by (simp add: detect_defs sample_defs)
  then have pl: "isClientGM (sample_host False) \<or> \<not> hasDateChanged ?s (Some (reading 1000 1 1 30 15))"
    by simp
  from same
    updateDateTime_refreshes_date [OF w gm, of True]
    updateDateTime_refreshes_date [OF w pl, of True]
  show ?thesis by (simp add: old_record_def)
qed

text \<open>
  On a material change seen by a client that is not the GM the date is not replaced:
  with the record of day 1 held, the reading of day 2 leaves the record of day 1.
\<close>

theorem updateDateTime_player_keeps_old_date:
  "currentWeather (snd (updateDateTime (sample_host False) True (Some (reading 1000 1 2 0 0))
      (sample_app (Some old_record) (Some old_record) full_page))) = Some old_record
   \<and> date old_record \<noteq> Some (reading 1000 1 2 0 0)"
  by (simp add: updateDateTime_def detect_defs effect_defs sample_defs)

section \<open>Bootstrap\<close>

text \<open>
  C6. \<open>setWeather\<close>: a record in the store is adopted as it is, whoever the client is,
  with no call of the generator and no write; with an empty store the GM calls the
  generator once, with the default climate, humidity and season and no seed, holds
  the answer and writes it once; with an empty store any other client calls nothing
  and holds what it held before, so nothing if it held nothing. Each case ends with a
  render.
\<close>

theorem setWeather_bootstrap:
  "(lastWeatherData (settings s) = Some stored \<longrightarrow>
      setWeather h accepted s = s\<lparr>currentWeather := Some stored, events := events s @ [Render]\<rparr>)
   \<and> (lastWeatherData (settings s) = None \<and> isClientGM h \<longrightarrow>
      (let w = generate h (Climate_Cold h) (Humidity_Modest h) (Season_Spring h) None
       in setWeather h accepted s =
          s\<lparr>currentWeather := Some w,
            settings := (if accepted then (settings s)\<lparr>lastWeatherData := Some w\<rparr> else settings s),
            events := events s @
              [Generate (Climate_Cold h) (Humidity_Modest h) (Season_Spring h) None,
               SetLastWeatherData w, Render]\<rparr>))
   \<and> (lastWeatherData (settings s) = None \<and> \<not> isClientGM h \<longrightarrow>
      setWeather h accepted s = s\<lparr>events := events s @ [Render]\<rparr>)"
  by (simp add: setWeather_def effect_defs Let_def)

theorem setWeather_bootstrap_witness:
  "setWeather (sample_host False) True (sample_app None (Some old_record) no_page)
     = (sample_app None (Some old_record) no_page)\<lparr>currentWeather := Some old_record, events := [Render]\<rparr>
   \<and> setWeather (sample_host True) True (sample_app None None no_page)
     = (sample_app None None no_page)
         \<lparr>currentWeather := Some \<lparr>date = None, content = ''fresh''\<rparr>,
          settings := \<lparr>lastWeatherData = Some \<lparr>date = None, content = ''fresh''\<rparr>,
                       useCelsius = False, dialogDisplay = True\<rparr>,
          events := [Generate 0 1 0 None, SetLastWeatherData \<lparr>date = None, content = ''fresh''\<rparr>, Render]\<rparr>
   \<and> setWeather (sample_host False) True (sample_app None None no_page)
     = (sample_app None None no_page)\<lparr>events := [Render]\<rparr>"
  using
    setWeather_bootstrap [where s = "sample_app None (Some old_record) no_page"
      and stored = old_record and h = "sample_host False" and accepted = True]
    setWeather_bootstrap [where s = "sample_app None None no_page"
      and h = "sample_host True" and accepted = True]
    setWeather_bootstrap [where s = "sample_app None None no_page"
      and h = "sample_host False" and accepted = True]
  by (simp add: sample_app_def sample_host_def Let_def)

section \<open>Failed writes\<close>

text \<open>
  C7, amended. When the write fails, the store keeps what it held and the record held
  in memory is not rolled back. A time-driven commit has already given the record the
  incoming reading as its date; the call rejects with the write failure and does not
  render. A manual regeneration has already replaced the record by the generated one;
  the handler goes on to render.
\<close>

theorem failed_write_no_rollback:
  "(currentWeather s = Some w \<and> hasDateChanged s (Some d) \<and> isClientGM h \<longrightarrow>
      updateDateTime h False (Some d) s =
        (Some StoreWriteFailure,
         s\<lparr>currentWeather := Some (w\<lparr>date := Some d\<rparr>),
           events := events s @ [SetLastWeatherData (w\<lparr>date := Some d\<rparr>)]\<rparr>))
   \<and> (getHumidity h s = Some humidity \<and> getClimate h s = Some climate \<and> getSeason h s = Some season \<longrightarrow>
      onWeatherRegenerateClick h False s =
        s\<lparr>currentWeather := Some (generate h climate humidity season (currentWeather s)),
          events := events s @
            [Generate climate humidity season (currentWeather s),
             SetLastWeatherData (generate h climate humidity season (currentWeather s)),
             Render]\<rparr>)"
  by (simp add: updateDateTime_def onWeatherRegenerateClick_def effect_defs Let_def)

theorem failed_write_no_rollback_witness:
  "updateDateTime (sample_host True) False (Some (reading 1000 1 2 0 0))
      (sample_app (Some old_record) (Some old_record) full_page)
    = (Some StoreWriteFailure,
       (sample_app (Some old_record) (Some old_record) full_page)
         \<lparr>currentWeather := Some \<lparr>date = Some (reading 1000 1 2 0 0), content = ''stale''\<rparr>,
          events := [SetLastWeatherData \<lparr>date = Some (reading 1000 1 2 0 0), content = ''stale''\<rparr>]\<rparr>)
   \<and> onWeatherRegenerateClick (sample_host True) False
        (sample_app (Some old_record) (Some old_record) full_page)
    = (sample_app (Some old_record) (Some old_record) full_page)
        \<lparr>currentWeather := Some \<lparr>date = None, content = ''fresh''\<rparr>,
         events := [Generate 2 3 1 (Some old_record),
                    SetLastWeatherData \<lparr>date = None, content = ''fresh''\<rparr>, Render]\<rparr>"
  using failed_write_no_rollback [where s = "sample_app (Some old_record) (Some old_record) full_page"
      and h = "sample_host True" and w = old_record and d = "reading 1000 1 2 0 0"
      and humidity = 3 and climate = 2 and season = 1]
  by (simp add: getHumidity_def getClimate_def getSeason_def detect_defs sample_defs)

text \<open>
  The record held does change under a failed write: with the record of day 1 held, a
  rejected time-driven commit leaves a record dated day 2, and a rejected manual
  regeneration leaves the generated record.
\<close>

theorem failed_write_changes_record:
  "fst (updateDateTime (sample_host True) False (Some (reading 1000 1 2 0 0))
          (sample_app (Some old_record) (Some old_record) full_page)) = Some StoreWriteFailure
   \<and> currentWeather (snd (updateDateTime (sample_host True) False (Some (reading 1000 1 2 0 0))
          (sample_app (Some old_record) (Some old_record) full_page)))
      \<noteq> currentWeather (sample_app (Some old_record) (Some old_record) full_page)
   \<and> currentWeather (onWeatherRegenerateClick (sample_host True) False
          (sample_app (Some old_record) (Some old_record) full_page))
      \<noteq> currentWeather (sample_app (Some old_record) (Some old_record) full_page)"
  by (simp add: updateDateTime_def onWeatherRegenerateClick_def getHumidity_def getClimate_def
      getSeason_def detect_defs effect_defs sample_defs)

section \<open>Repeated time updates\<close>

text \<open>
  C8. Two calls of \<open>updateDateTime\<close> in a row on the GM's client with the same present
  reading write to the store at most once. When a record is held, the first call
  leaves it dated with the reading, so the second call finds no change, writes
  nothing and only refreshes the date and renders.
\<close>

theorem updateDateTime_twice:
  assumes gm: "isClientGM h"
    and s1: "s1 = snd (updateDateTime h acc (Some d) s)"
    and s2: "s2 = snd (updateDateTime h acc' (Some d) s1)"
  shows "length (filter is_write (events s2)) \<le> Suc (length (filter is_write (events s)))
         \<and> (currentWeather s \<noteq> None \<longrightarrow>
              previous s1 = Some d \<and> \<not> hasDateChanged s1 (Some d)
              \<and> updateDateTime h acc' (Some d) s1 = (None, s1\<lparr>events := events s1 @ [Render]\<rparr>))"
proof (cases "currentWeather s")
  case None
  then have "s1 = s" and "s2 = s"
    using gm s1 s2 by (simp_all add: updateDateTime_no_record)
  with None show ?thesis by simp
next
  case (Some w)
  have cw: "currentWeather s1 = Some (w\<lparr>date := Some d\<rparr>)"
    using Some gm s1 by (simp add: updateDateTime_adopts)
  have dw: "date (w\<lparr>date := Some d\<rparr>) = Some d"
    by simp
  have prev: "previous s1 = Some d"
    using cw by (simp add: previous_def)
  have second: "updateDateTime h acc' (Some d) s1 = (None, s1\<lparr>events := events s1 @ [Render]\<rparr>)"
    by (rule updateDateTime_unchanged_date [OF cw dw])
  have "filter is_write (events s2) = filter is_write (events s1)"
    using s2 second by simp
  moreover have "length (filter is_write (events s1)) \<le> Suc (length (filter is_write (events s)))"
    unfolding s1 by (rule updateDateTime_writes)
  ultimately have once: "length (filter is_write (events s2)) \<le> Suc (length (filter is_write (events s)))"
    by simp
  have "\<not> hasDateChanged s1 (Some d)"
    using prev by (simp add: hasDateChanged_present)
  with once prev second show ?thesis by simp
qed

theorem updateDateTime_twice_witness:
  "isClientGM (sample_host True)
   \<and> currentWeather (sample_app (Some old_record) (Some old_record) full_page) \<noteq> None
   \<and> events (snd (updateDateTime (sample_host True) True (Some (reading 1000 1 2 0 0))
      (snd (updateDateTime (sample_host True) True (Some (reading 1000 1 2 0 0))
         (sample_app (Some old_record) (Some old_record) full_page)))))
     = [SetLastWeatherData \<lparr>date = Some (reading 1000 1 2 0 0), content = ''stale''\<rparr>, Render, Render]"
proof -
  let ?h = "sample_host True"
  let ?d = "reading 1000 1 2 0 0"
  let ?s = "sample_app (Some old_record) (Some old_record) full_page"
  have gm: "isClientGM ?h"
    by (simp add: sample_host_def)
  have first: "snd (updateDateTime ?h True (Some ?d) ?s) =
      ?s\<lparr>currentWeather := Some \<lparr>date = Some ?d, content = ''stale''\<rparr>,
         settings := \<lparr>lastWeatherData = Some \<lparr>date = Some ?d, content = ''stale''\<rparr>,
                      useCelsius = False, dialogDisplay = True\<rparr>,
         events := [SetLastWeatherData \<lparr>date = Some ?d, content = ''stale''\<rparr>, Render]\<rparr>"
    by (simp add: updateDateTime_def detect_defs effect_defs sample_defs)
  have held: "currentWeather ?s \<noteq> None"
    by (simp add: sample_app_def)
  from updateDateTime_twice [OF gm refl refl, where s = ?s and d = ?d and acc = True and acc' = True] held
  have "updateDateTime ?h True (Some ?d) (snd (updateDateTime ?h True (Some ?d) ?s))
        = (None, (snd (updateDateTime ?h True (Some ?d) ?s))
            \<lparr>events := events (snd (updateDateTime ?h True (Some ?d) ?s)) @ [Render]\<rparr>)"
    by simp
  then have "events (snd (updateDateTime ?h True (Some ?d) (snd (updateDateTime ?h True (Some ?d) ?s))))
      = [SetLastWeatherData \<lparr>date = Some ?d, content = ''stale''\<rparr>, Render, Render]"
    unfolding first by (simp add: sample_app_def)
  with gm held show ?thesis by simp
qed

section \<open>Manual regeneration\<close>

text \<open>
  C9. \<open>onWeatherRegenerateClick\<close>: when the humidity, the climate or the season is
  missing, the handler changes nothing and calls nothing; when the three are there, it
  calls the generator with them and the record held as seed, holds the answer, writes
  it to the store and renders.
\<close>

theorem onWeatherRegenerateClick_parameters:
  "(getHumidity h s = None \<or> getClimate h s = None \<or> getSeason h s = None \<longrightarrow>
      onWeatherRegenerateClick h accepted s = s)
   \<and> (getHumidity h s = Some humidity \<and> getClimate h s = Some climate \<and> getSeason h s = Some season \<longrightarrow>
      onWeatherRegenerateClick h accepted s =
        s\<lparr>currentWeather := Some (generate h climate humidity season (currentWeather s)),
          settings :=
            (if accepted
             then (settings s)\<lparr>lastWeatherData := Some (generate h climate humidity season (currentWeather s))\<rparr>
             else settings s),
          events := events s @
            [Generate climate humidity season (currentWeather s),
             SetLastWeatherData (generate h climate humidity season (currentWeather s)),
             Render]\<rparr>)"
  by (auto simp add: onWeatherRegenerateClick_def effect_defs Let_def split: option.splits)

theorem onWeatherRegenerateClick_parameters_witness:
  "getClimate (sample_host True) (sample_app (Some old_record) (Some old_record)
      (full_page\<lparr>climate_selection := None\<rparr>)) = None
   \<and> onWeatherRegenerateClick (sample_host True) True
        (sample_app (Some old_record) (Some old_record) (full_page\<lparr>climate_selection := None\<rparr>))
      = sample_app (Some old_record) (Some old_record) (full_page\<lparr>climate_selection := None\<rparr>)
   \<and> onWeatherRegenerateClick (sample_host True) True
        (sample_app (Some old_record) (Some old_record) full_page)
      = (sample_app (Some old_record) (Some old_record) full_page)
          \<lparr>currentWeather := Some \<lparr>date = None, content = ''fresh''\<rparr>,
           settings := \<lparr>lastWeatherData = Some \<lparr>date = None, content = ''fresh''\<rparr>,
                        useCelsius = False, dialogDisplay = True\<rparr>,
           events := [Generate 2 3 1 (Some old_record),
                      SetLastWeatherData \<lparr>date = None, content = ''fresh''\<rparr>, Render]\<rparr>"
  using
    onWeatherRegenerateClick_parameters [where h = "sample_host True" and accepted = True
      and s = "sample_app (Some old_record) (Some old_record) (full_page\<lparr>climate_selection := None\<rparr>)"]
    onWeatherRegenerateClick_parameters [where h = "sample_host True" and accepted = True
      and s = "sample_app (Some old_record) (Some old_record) full_page"
      and humidity = 3 and climate = 2 and season = 1]
  by (simp add: getHumidity_def getClimate_def getSeason_def sample_defs)

section \<open>Template data without a record\<close>

text \<open>
  C10. While no record is held, \<open>getData\<close> gives the empty string for the display
  date, the formatted date, the formatted time, the weekday, the temperature and the
  description, and still gives the four selection lists and the window position.
\<close>

theorem getData_without_record:
  assumes "currentWeather s = None"
  shows "displayDate (getData h s) = '''' \<and> formattedDate (getData h s) = ''''
         \<and> formattedTime (getData h s) = '''' \<and> weekday (getData h s) = Some ''''
         \<and> currentTemperature (getData h s) = '''' \<and> currentDescription (getData h s) = ''''
         \<and> data_biomeSelections (getData h s) = biomeSelections h
         \<and> data_seasonSelections (getData h s) = seasonSelections h
         \<and> data_humiditySelections (getData h s) = humiditySelections h
         \<and> data_climateSelections (getData h s) = climateSelections h
         \<and> data_windowPosition (getData h s) = windowPosition s"
  using assms by (simp add: getData_def)

theorem getData_without_record_witness:
  "currentWeather (sample_app None None no_page) = None
   \<and> getData (sample_host False) (sample_app None None no_page)
     = \<lparr>inherited = [], isGM = False, displayDate = '''', formattedDate = '''',
        formattedTime = '''', weekday = Some '''', currentTemperature = '''',
        currentDescription = '''', data_weatherPanelOpen = False,
        data_biomeSelections = [], data_seasonSelections = [], data_humiditySelections = [],
        data_climateSelections = [], hideWeather = False,
        data_windowPosition = \<lparr>left_px = 100, top_px = 100\<rparr>\<rparr>"
proof -
  have none: "currentWeather (sample_app None None no_page) = None"
    by (simp add: sample_app_def)
  from none getData_without_record [OF none, of "sample_host False"]
  show ?thesis
    by (simp add: getData_def sample_app_def sample_host_def)
qed

end
